theory Spec2Isabelle
  imports Main "HOL-Library.Sublist"
begin

section \<open>Strings as the TypeScript code uses them\<close>

text \<open>
  A JavaScript string is modelled as a \<open>string\<close>, a list of characters; a character is
  a code unit below 256 (ASCII and Latin-1), which covers the batch texts and e-mail
  addresses of this program. \<open>s.includes(t)\<close> is the contiguous sublist test,
  \<open>s.split(c)\<close> for a one-character separator never returns the empty array.
  \<open>s.trim()\<close> removes white space and line terminators at both ends: below 256 these
  are tab, line feed, vertical tab, form feed, carriage return, space and the no-break
  space U+00A0.
\<close>

definition str_includes :: "string \<Rightarrow> string \<Rightarrow> bool" where
  "str_includes s t = sublist t s"

definition is_space :: "char \<Rightarrow> bool" where
  "is_space c = (c = CHR '' '' \<or> c = CHR 0x09 \<or> c = CHR 0x0A \<or> c = CHR 0x0B
                 \<or> c = CHR 0x0C \<or> c = CHR 0x0D \<or> c = CHR 0xA0)"

definition trim :: "string \<Rightarrow> string" where
  "trim s = rev (dropWhile is_space (rev (dropWhile is_space s)))"

fun split_on :: "char \<Rightarrow> string \<Rightarrow> string list" where
  "split_on c [] = [[]]"
| "split_on c (x # xs) =
     (if x = c then [] # split_on c xs
      else (case split_on c xs of [] \<Rightarrow> [[x]] | y # ys \<Rightarrow> (x # y) # ys))"

text \<open>\<open>arr[i]\<close>: \<open>undefined\<close> (here \<open>None\<close>) beyond the end of the array.\<close>

definition item_at :: "'a list \<Rightarrow> nat \<Rightarrow> 'a option" where
  "item_at xs i = (if i < length xs then Some (xs ! i) else None)"

text \<open>A template literal prints an absent value as the word \<open>undefined\<close>.\<close>

definition show_opt :: "string option \<Rightarrow> string" where
  "show_opt v = (case v of None \<Rightarrow> ''undefined'' | Some s \<Rightarrow> s)"

text \<open>\<open>a || b\<close> on a string: the empty string is falsy.\<close>

definition or_default :: "string \<Rightarrow> string \<Rightarrow> string" where
  "or_default a b = (if a = [] then b else a)"

section \<open>Requests and the batch parser (hook \<open>useDelegateFormHandler\<close>)\<close>

text \<open>
  One element of the \<open>operations\<close> array. Every field may be absent: the parser
  destructures \<open>[op, user, delegate]\<close> from however many fields the line has, and the
  server reads the array back from JSON.
\<close>

record request =
  operation :: "string option"
  userEmail :: "string option"
  delegateEmail :: "string option"

definition parse_line :: "string \<Rightarrow> request" where
  "parse_line line =
     (let items = map trim (split_on CHR '','' line)
      in \<lparr>operation = item_at items 0, userEmail = item_at items 1,
          delegateEmail = item_at items 2\<rparr>)"

definition parseBatchOperations :: "string \<Rightarrow> request list" where
  "parseBatchOperations batch =
     map parse_line (filter (\<lambda>line. trim line \<noteq> []) (split_on CHR 0x0A batch))"

section \<open>The remote mail service and the process environment\<close>

text \<open>
  The remote service is outside the repository. It is modelled as a state: the delegates
  of every mailbox, a log of the calls issued so far, and \<open>faults\<close>, which decides from
  the calls issued so far and the call being made whether that call throws, and with
  which message. The theorems hold for every \<open>faults\<close>, so for every pattern of network
  and authorization failures. \<open>stdout\<close> and \<open>stderr\<close> are the console of the running
  process.
\<close>

record delegate =
  d_delegateEmail :: "string option"
  d_verificationStatus :: "string option"

record service_account =
  client_email :: string
  private_key :: string

text \<open>
  An uploaded key file: \<open>Broken e\<close> is a file whose saving, reading or
  \<open>JSON.parse\<close> throws an error with message \<open>e\<close>; \<open>Key k\<close> parses to \<open>k\<close>. A path to
  a saved file is modelled by the file found there.
\<close>

datatype sa_file = Broken string | Key service_account

text \<open>A Gmail client: the \<open>google.auth.JWT\<close> identity and the impersonated user.\<close>

record client =
  account :: service_account
  subject :: "string option"

datatype remote_call =
    GetAccessToken client
  | GetProfile client
  | ListCall client
  | CreateCall client "string option"
  | DeleteCall client "string option"

fun is_mutating :: "remote_call \<Rightarrow> bool" where
  "is_mutating (CreateCall g d) = True"
| "is_mutating (DeleteCall g d) = True"
| "is_mutating c = False"

fun is_create :: "remote_call \<Rightarrow> bool" where
  "is_create (CreateCall g d) = True"
| "is_create c = False"

fun is_delete :: "remote_call \<Rightarrow> bool" where
  "is_delete (DeleteCall g d) = True"
| "is_delete c = False"

record world =
  mailboxes :: "string option \<Rightarrow> delegate list"
  faults :: "remote_call list \<Rightarrow> remote_call \<Rightarrow> string option"
  calls :: "remote_call list"
  stdout :: string
  stderr :: string

definition issue :: "remote_call \<Rightarrow> world \<Rightarrow> string option \<times> world" where
  "issue c w = (faults w (calls w) c, w\<lparr>calls := calls w @ [c]\<rparr>)"

definition delegates_list :: "client \<Rightarrow> world \<Rightarrow> (string + delegate list) \<times> world" where
  "delegates_list g w =
     (case issue (ListCall g) w of
        (Some e, w') \<Rightarrow> (Inl e, w')
      | (None, w') \<Rightarrow> (Inr (mailboxes w' (subject g)), w'))"

definition delegates_create ::
  "client \<Rightarrow> string option \<Rightarrow> world \<Rightarrow> (string + delegate) \<times> world" where
  "delegates_create g d w =
     (case issue (CreateCall g d) w of
        (Some e, w') \<Rightarrow> (Inl e, w')
      | (None, w') \<Rightarrow>
          (let new = \<lparr>d_delegateEmail = d, d_verificationStatus = Some ''accepted''\<rparr>
           in (Inr new,
               w'\<lparr>mailboxes := (mailboxes w')(subject g := mailboxes w' (subject g) @ [new])\<rparr>)))"

definition delegates_delete ::
  "client \<Rightarrow> string option \<Rightarrow> world \<Rightarrow> (string + unit) \<times> world" where
  "delegates_delete g d w =
     (case issue (DeleteCall g d) w of
        (Some e, w') \<Rightarrow> (Inl e, w')
      | (None, w') \<Rightarrow>
          (Inr (),
           w'\<lparr>mailboxes := (mailboxes w')
                 (subject g := filter (\<lambda>x. d_delegateEmail x \<noteq> d) (mailboxes w' (subject g)))\<rparr>))"

definition console_log :: "string \<Rightarrow> world \<Rightarrow> world" where
  "console_log line w = w\<lparr>stdout := stdout w @ line @ [CHR 0x0A]\<rparr>"

definition console_error :: "string \<Rightarrow> world \<Rightarrow> world" where
  "console_error line w = w\<lparr>stderr := stderr w @ line @ [CHR 0x0A]\<rparr>"

text \<open>
  How an error object is printed (\<open>String(error)\<close>, \<open>error.stack\<close>, the second argument
  of \<open>console.error\<close>): its message after the word \<open>Error\<close>; the stack frames and an
  HTTP response body are left out.
\<close>

definition inspect_error :: "string \<Rightarrow> string" where
  "inspect_error e = ''Error: '' @ e"

definition inspect_delegate :: "delegate \<Rightarrow> string" where
  "inspect_delegate d =
     ''{ delegateEmail: '' @ show_opt (d_delegateEmail d) @ '', verificationStatus: ''
       @ show_opt (d_verificationStatus d) @ '' }''"

section \<open>Operation results\<close>

text \<open>
  \<open>OperationResult\<close> of \<open>types/delegates\<close>, with the two extra fields (\<open>rawOutput\<close>,
  \<open>error\<close>) that the untyped results of the API route carry. An absent field is \<open>None\<close>.
\<close>

record result =
  success :: bool
  r_userEmail :: "string option"
  r_delegateEmail :: "string option"
  r_operation :: "string option"
  message :: "string option"
  details :: "string option"
  delegates :: "delegate list option"
  rawOutput :: "string option"
  r_error :: "string option"

definition res0 :: result where
  "res0 = \<lparr>success = False, r_userEmail = None, r_delegateEmail = None, r_operation = None,
           message = None, details = None, delegates = None, rawOutput = None,
           r_error = None\<rparr>"

text \<open>\<open>delegates?.some((d) => d.delegateEmail === delegateEmail)\<close>\<close>

definition some_delegate :: "delegate list option \<Rightarrow> string option \<Rightarrow> bool" where
  "some_delegate ds e =
     (case ds of None \<Rightarrow> False | Some l \<Rightarrow> list_ex (\<lambda>d. d_delegateEmail d = e) l)"

text \<open>
  The loop \<open>for (const op of operations) { ...; results.push(r) }\<close>: \<open>step\<close> is the loop
  body, which computes the pushed result and changes the world.
\<close>

fun push_each ::
  "('a \<Rightarrow> world \<Rightarrow> result \<times> world) \<Rightarrow> 'a list \<Rightarrow> result list \<Rightarrow> world
     \<Rightarrow> result list \<times> world" where
  "push_each step [] results w = (results, w)"
| "push_each step (x # xs) results w =
     (case step x w of (r, w') \<Rightarrow> push_each step xs (results @ [r]) w')"

section \<open>\<open>utils/gmail-integration.ts\<close>\<close>

definition createGmailClient ::
  "service_account \<Rightarrow> string option \<Rightarrow> world \<Rightarrow> client option \<times> world" where
  "createGmailClient serviceAccount email w =
     (let auth = \<lparr>account = serviceAccount, subject = email\<rparr>
      in case issue (GetAccessToken auth) w of
           (Some e, w1) \<Rightarrow>
             (None, console_error (''Error obtaining access token: '' @ inspect_error e) w1)
         | (None, w1) \<Rightarrow>
             (case issue (GetProfile auth) w1 of
                (Some e, w2) \<Rightarrow>
                  (None, console_error (''Error accessing Gmail API: '' @ inspect_error e) w2)
              | (None, w2) \<Rightarrow> (Some auth, w2)))"

definition falsy_undefined :: "string option \<Rightarrow> string option" where
  "falsy_undefined v = (if v = Some [] then None else v)"

definition listDelegates :: "client \<Rightarrow> world \<Rightarrow> result \<times> world" where
  "listDelegates gmail w =
     (case delegates_list gmail w of
        (Inr ds, w') \<Rightarrow>
          (res0\<lparr>success := True, r_operation := Some ''list'',
                message := Some ''Delegates retrieved successfully'',
                delegates := Some (map (\<lambda>d. \<lparr>d_delegateEmail = falsy_undefined (d_delegateEmail d),
                     d_verificationStatus = falsy_undefined (d_verificationStatus d)\<rparr>) ds)\<rparr>, w')
      | (Inl e, w') \<Rightarrow>
          (res0\<lparr>success := False, r_operation := Some ''list'',
                message := Some (or_default e ''Error listing delegates''),
                details := Some (inspect_error e)\<rparr>,
           console_error (''Error listing delegates: '' @ inspect_error e) w'))"

text \<open>
  The outer \<open>catch\<close> of \<open>processDelegateOperation\<close>. It receives the missing-file
  error, an error of saving or reading the key file and an error thrown by the create or
  delete call. Removing the temporary file in the \<open>finally\<close> block is taken to succeed.
\<close>

definition operation_error ::
  "string option \<Rightarrow> string option \<Rightarrow> string option \<Rightarrow> string \<Rightarrow> world
     \<Rightarrow> result \<times> world" where
  "operation_error op email delegate e w =
     (res0\<lparr>success := False, r_userEmail := email, r_delegateEmail := delegate,
           r_operation := op,
           message := Some (or_default e ''An error occurred during the operation''),
           details := Some (inspect_error e)\<rparr>,
      console_error (''Operation error: '' @ inspect_error e) w)"

definition op_result ::
  "bool \<Rightarrow> string option \<Rightarrow> string option \<Rightarrow> string option \<Rightarrow> string \<Rightarrow> result" where
  "op_result ok op email delegate msg =
     res0\<lparr>success := ok, r_userEmail := email, r_delegateEmail := delegate,
          r_operation := op, message := Some msg\<rparr>"

definition processDelegateOperation ::
  "string option \<Rightarrow> string option \<Rightarrow> string option \<Rightarrow> sa_file option \<Rightarrow> world
     \<Rightarrow> result \<times> world" where
  "processDelegateOperation op email delegate serviceAccountFile w =
     (case serviceAccountFile of
        None \<Rightarrow> operation_error op email delegate ''Service account file is required'' w
      | Some (Broken e) \<Rightarrow> operation_error op email delegate e w
      | Some (Key serviceAccount) \<Rightarrow>
         (case createGmailClient serviceAccount email w of
            (None, w1) \<Rightarrow>
              (op_result False op email delegate ''Failed to create Gmail client'', w1)
          | (Some gmail, w1) \<Rightarrow>
              if op = Some ''list'' then listDelegates gmail w1
              else
               (case listDelegates gmail w1 of (listResult, w2) \<Rightarrow>
                  if \<not> success listResult then (listResult, w2)
                  else
                   (let delegateExists = some_delegate (delegates listResult) delegate
                    in if op = Some ''add'' then
                         (if delegateExists then
                            (op_result False op email delegate
                               (''Delegate '' @ show_opt delegate @ '' already exists''), w2)
                          else
                            (case delegates_create gmail delegate w2 of
                               (Inl e, w3) \<Rightarrow> operation_error op email delegate e w3
                             | (Inr created, w3) \<Rightarrow>
                                 (op_result True op email delegate
                                    (''Delegate '' @ show_opt delegate @ '' added successfully''),
                                  w3)))
                       else if op = Some ''remove'' then
                         (if \<not> delegateExists then
                            (op_result False op email delegate
                               (''Delegate '' @ show_opt delegate @ '' does not exist''), w2)
                          else
                            (case delegates_delete gmail delegate w2 of
                               (Inl e, w3) \<Rightarrow> operation_error op email delegate e w3
                             | (Inr u, w3) \<Rightarrow>
                                 (op_result True op email delegate
                                    (''Delegate '' @ show_opt delegate @ '' removed successfully''),
                                  w3)))
                       else
                         (op_result False op email delegate
                            (''Invalid operation: '' @ show_opt op), w2)))))"

definition processBatchOperations ::
  "request list \<Rightarrow> sa_file option \<Rightarrow> world \<Rightarrow> result list \<times> world" where
  "processBatchOperations operations serviceAccountFile w =
     (case serviceAccountFile of
        None \<Rightarrow>
          (map (\<lambda>op. op_result False (operation op) (userEmail op) (delegateEmail op)
                        ''Service account file is required'') operations, w)
      | Some f \<Rightarrow>
          push_each
            (\<lambda>op. processDelegateOperation (operation op) (userEmail op) (delegateEmail op)
                     (Some f))
            operations [] w)"

section \<open>The scripts \<open>createDelegate.ts\<close> and \<open>deleteDelegate.ts\<close>\<close>

text \<open>
  A script is a function on the world of the child process: what it prints with
  \<open>console.log\<close> goes to \<open>stdout\<close>, with \<open>console.error\<close> to \<open>stderr\<close>. Both scripts catch
  every error they meet, so they end with exit status 0.
\<close>

definition script_error :: "string \<Rightarrow> string \<Rightarrow> world \<Rightarrow> world" where
  "script_error label e w =
     console_error (''Error stack: '' @ inspect_error e)
       (console_error (label @ '' '' @ inspect_error e) w)"

fun add_each_delegate :: "client \<Rightarrow> string \<Rightarrow> string list \<Rightarrow> world \<Rightarrow> world" where
  "add_each_delegate gmail u [] w = w"
| "add_each_delegate gmail u (d # ds) w =
     (case listDelegates gmail
             (console_log (''Checking if delegate ('' @ d @ '') already exists for user: ''
                            @ u @ ''...'') w) of
        (result, w1) \<Rightarrow>
          if success result \<and> some_delegate (delegates result) (Some d) then
            add_each_delegate gmail u ds
              (console_log (''Delegate '' @ d @ '' already exists for '' @ u @ ''. Skipping.'') w1)
          else
            (case delegates_create gmail (Some d)
                    (console_log (''Attempting to create delegate ('' @ d @ '') for user: ''
                                   @ u @ ''...'') w1) of
               (Inl e, w2) \<Rightarrow>
                 add_each_delegate gmail u ds
                   (console_error (''Error adding delegate ('' @ d @ '') to '' @ u @ '': ''
                                    @ inspect_error e) w2)
             | (Inr created, w2) \<Rightarrow>
                 add_each_delegate gmail u ds
                   (console_log (''Response: '' @ inspect_delegate created)
                      (console_log (''Delegate '' @ d @ '' added successfully to '' @ u @ ''.'')
                         w2))))"

fun add_each_user :: "service_account \<Rightarrow> string list \<Rightarrow> string list \<Rightarrow> world \<Rightarrow> world" where
  "add_each_user k [] ds w = w"
| "add_each_user k (u # us) ds w =
     (case createGmailClient k (Some u)
             (console_log (''Creating Gmail client for user: '' @ u @ ''...'') w) of
        (None, w1) \<Rightarrow>
          add_each_user k us ds
            (console_error (''Failed to create Gmail client for '' @ u @ ''. Skipping.'') w1)
      | (Some gmail, w1) \<Rightarrow>
          add_each_user k us ds
            (add_each_delegate gmail u ds (console_log ''Gmail client created successfully.'' w1)))"

definition addDelegateAccount ::
  "sa_file \<Rightarrow> string option \<Rightarrow> string option \<Rightarrow> world \<Rightarrow> world" where
  "addDelegateAccount serviceAccountFile userEmails delegateEmails w =
     (case (userEmails, delegateEmails) of
        (Some us, Some ds) \<Rightarrow>
          (let userEmailArray = map trim (split_on CHR '','' us);
               delegateEmailArray = map trim (split_on CHR '','' ds);
               w1 = console_log ''Loading service account key file...'' w
           in case serviceAccountFile of
                Broken e \<Rightarrow> script_error ''Error adding user accounts as delegatees:'' e w1
              | Key k \<Rightarrow>
                  add_each_user k userEmailArray delegateEmailArray
                    (console_log ''Service account key file loaded successfully.'' w1))
      | _ \<Rightarrow>
          script_error ''Error adding user accounts as delegatees:''
            ''Cannot read properties of undefined'' w)"

fun delete_each_delegate :: "client \<Rightarrow> string \<Rightarrow> string list \<Rightarrow> world \<Rightarrow> world" where
  "delete_each_delegate gmail u [] w = w"
| "delete_each_delegate gmail u (d # ds) w =
     (case listDelegates gmail
             (console_log (''Checking if delegate ('' @ d @ '') exists for user: ''
                            @ u @ ''...'') w) of
        (result, w1) \<Rightarrow>
          if \<not> (success result \<and> some_delegate (delegates result) (Some d)) then
            delete_each_delegate gmail u ds
              (console_log (''Delegate '' @ d @ '' does not exist for '' @ u @ ''. Skipping.'') w1)
          else
            (case delegates_delete gmail (Some d)
                    (console_log (''Attempting to delete delegate ('' @ d @ '') for user: ''
                                   @ u @ ''...'') w1) of
               (Inl e, w2) \<Rightarrow>
                 delete_each_delegate gmail u ds
                   (console_error (''Error deleting delegate ('' @ d @ '') from '' @ u @ '': ''
                                    @ inspect_error e) w2)
             | (Inr done, w2) \<Rightarrow>
                 delete_each_delegate gmail u ds
                   (console_log (''Delegate '' @ d @ '' deleted successfully from '' @ u @ ''.'')
                      w2)))"

fun delete_each_user ::
  "service_account \<Rightarrow> string list \<Rightarrow> string list \<Rightarrow> world \<Rightarrow> world" where
  "delete_each_user k [] ds w = w"
| "delete_each_user k (u # us) ds w =
     (case createGmailClient k (Some u)
             (console_log (''Creating Gmail client for user: '' @ u @ ''...'') w) of
        (None, w1) \<Rightarrow>
          delete_each_user k us ds
            (console_error (''Failed to create Gmail client for '' @ u @ ''. Skipping.'') w1)
      | (Some gmail, w1) \<Rightarrow>
          delete_each_user k us ds
            (delete_each_delegate gmail u ds
               (console_log ''Gmail client created successfully.'' w1)))"

definition deleteDelegateAccount ::
  "sa_file \<Rightarrow> string option \<Rightarrow> string option \<Rightarrow> world \<Rightarrow> world" where
  "deleteDelegateAccount serviceAccountFile userEmails delegateEmails w =
     (case (userEmails, delegateEmails) of
        (Some us, Some ds) \<Rightarrow>
          (let userEmailArray = map trim (split_on CHR '','' us);
               delegateEmailArray = map trim (split_on CHR '','' ds);
               w1 = console_log ''Loading service account key file...'' w
           in case serviceAccountFile of
                Broken e \<Rightarrow> script_error ''Error deleting user accounts as delegates:'' e w1
              | Key k \<Rightarrow>
                  delete_each_user k userEmailArray delegateEmailArray
                    (console_log ''Service account key file loaded successfully.'' w1))
      | _ \<Rightarrow>
          script_error ''Error deleting user accounts as delegates:''
            ''Cannot read properties of undefined'' w)"

section \<open>\<open>app/api/delegates/route.ts\<close>\<close>

text \<open>
  \<open>execPromise\<close> runs a script in a child process with an empty console and returns what
  the child printed; the parent's console is untouched. Writing the parameter file and
  starting \<open>ts-node\<close> are taken to succeed.
\<close>

definition execPromise :: "(world \<Rightarrow> world) \<Rightarrow> world \<Rightarrow> (string \<times> string) \<times> world" where
  "execPromise script w =
     (let child = script (w\<lparr>stdout := [], stderr := []\<rparr>)
      in ((stdout child, stderr child), child\<lparr>stdout := stdout w, stderr := stderr w\<rparr>))"

text \<open>The route's own \<open>createGmailClient\<close>: it reads the key file and contacts nobody.\<close>

definition route_createGmailClient ::
  "sa_file \<Rightarrow> string option \<Rightarrow> world \<Rightarrow> client option \<times> world" where
  "route_createGmailClient serviceAccountPath email w =
     (case serviceAccountPath of
        Broken e \<Rightarrow> (None, console_error (''Error creating Gmail client: '' @ inspect_error e) w)
      | Key serviceAccount \<Rightarrow> (Some \<lparr>account = serviceAccount, subject = email\<rparr>, w))"

definition route_listDelegates :: "client \<Rightarrow> world \<Rightarrow> result \<times> world" where
  "route_listDelegates gmail w =
     (case delegates_list gmail w of
        (Inr ds, w') \<Rightarrow> (res0\<lparr>success := True, delegates := Some ds\<rparr>, w')
      | (Inl e, w') \<Rightarrow>
          (res0\<lparr>success := False, message := Some (or_default e ''Error listing delegates''),
                r_error := Some (inspect_error e)\<rparr>,
           console_error (''Error listing delegates: '' @ inspect_error e) w'))"

definition script_result ::
  "string \<times> string \<Rightarrow> string \<Rightarrow> string \<Rightarrow> world \<Rightarrow> result \<times> world" where
  "script_result output ok_message failed_message w =
     (case output of (out, err) \<Rightarrow>
        if err \<noteq> [] \<and> \<not> str_includes err ''ExperimentalWarning'' then
          (res0\<lparr>success := False, message := Some ''Error executing script'',
                rawOutput := Some err\<rparr>,
           console_error (''Script error: '' @ err) w)
        else
          (let ok = \<not> str_includes out ''Error''
           in (res0\<lparr>success := ok,
                    message := Some (if ok then ok_message else failed_message),
                    rawOutput := Some out\<rparr>, w)))"

definition addDelegate ::
  "sa_file \<Rightarrow> string option \<Rightarrow> string option \<Rightarrow> world \<Rightarrow> result \<times> world" where
  "addDelegate serviceAccountPath email delegate w =
     (case execPromise (addDelegateAccount serviceAccountPath email delegate) w of
        (output, w1) \<Rightarrow>
          script_result output
            (''Delegate '' @ show_opt delegate @ '' added successfully to '' @ show_opt email
               @ ''.'')
            ''Failed to add delegate. Check the details for more information.'' w1)"

definition removeDelegate ::
  "sa_file \<Rightarrow> string option \<Rightarrow> string option \<Rightarrow> world \<Rightarrow> result \<times> world" where
  "removeDelegate serviceAccountPath email delegate w =
     (case execPromise (deleteDelegateAccount serviceAccountPath email delegate) w of
        (output, w1) \<Rightarrow>
          script_result output
            (''Delegate '' @ show_opt delegate @ '' removed successfully from ''
               @ show_opt email @ ''.'')
            ''Failed to remove delegate. Check the details for more information.'' w1)"

definition processBatch_step :: "sa_file \<Rightarrow> request \<Rightarrow> world \<Rightarrow> result \<times> world" where
  "processBatch_step serviceAccountPath op w =
     (if operation op = Some ''list'' then
        (case route_createGmailClient serviceAccountPath (userEmail op) w of
           (None, w1) \<Rightarrow>
             (res0\<lparr>success := False, r_userEmail := userEmail op, r_operation := Some ''list'',
                   message := Some ''Failed to create Gmail client''\<rparr>, w1)
         | (Some gmail, w1) \<Rightarrow>
             (case route_listDelegates gmail w1 of (listResult, w2) \<Rightarrow>
                (listResult\<lparr>r_userEmail := userEmail op, r_operation := Some ''list'',
                     message := (if success listResult
                                 then Some ''Delegates retrieved successfully''
                                 else message listResult)\<rparr>, w2)))
      else if operation op = Some ''add'' then
        (case addDelegate serviceAccountPath (userEmail op) (delegateEmail op) w of
           (addResult, w1) \<Rightarrow>
             (addResult\<lparr>r_userEmail := userEmail op, r_delegateEmail := delegateEmail op,
                  r_operation := Some ''add''\<rparr>, w1))
      else if operation op = Some ''remove'' then
        (case removeDelegate serviceAccountPath (userEmail op) (delegateEmail op) w of
           (removeResult, w1) \<Rightarrow>
             (removeResult\<lparr>r_userEmail := userEmail op, r_delegateEmail := delegateEmail op,
                  r_operation := Some ''remove''\<rparr>, w1))
      else
        (res0\<lparr>success := False, r_userEmail := userEmail op,
              r_delegateEmail := delegateEmail op, r_operation := operation op,
              message := Some (''Invalid operation: '' @ show_opt (operation op))\<rparr>, w))"

definition processBatch :: "sa_file \<Rightarrow> request list \<Rightarrow> world \<Rightarrow> result list \<times> world" where
  "processBatch serviceAccountPath operations w =
     push_each (processBatch_step serviceAccountPath) operations [] w"

section \<open>The route that calls the Gmail API directly\<close>

text \<open>
  Its \<open>createGmailClient\<close> and \<open>listDelegates\<close> are those of the route above
  (\<open>route_createGmailClient\<close>, \<open>route_listDelegates\<close>).
\<close>

definition addDelegateDirectly :: "client \<Rightarrow> string option \<Rightarrow> world \<Rightarrow> result \<times> world" where
  "addDelegateDirectly gmail delegate w =
     (case route_listDelegates gmail w of (listResult, w1) \<Rightarrow>
        if success listResult \<and> delegates listResult \<noteq> None
           \<and> some_delegate (delegates listResult) delegate then
          (res0\<lparr>success := False,
                message := Some (''Delegate '' @ show_opt delegate @ '' already exists'')\<rparr>, w1)
        else
          (case delegates_create gmail delegate w1 of
             (Inr created, w2) \<Rightarrow>
               (res0\<lparr>success := True,
                     message := Some (''Delegate '' @ show_opt delegate @ '' added successfully''),
                     details := Some (inspect_delegate created)\<rparr>, w2)
           | (Inl e, w2) \<Rightarrow>
               (res0\<lparr>success := False, message := Some (or_default e ''Error adding delegate''),
                     r_error := Some (inspect_error e)\<rparr>,
                console_error (''Error adding delegate: '' @ inspect_error e) w2)))"

definition removeDelegateDirectly ::
  "client \<Rightarrow> string option \<Rightarrow> world \<Rightarrow> result \<times> world" where
  "removeDelegateDirectly gmail delegate w =
     (case route_listDelegates gmail w of (listResult, w1) \<Rightarrow>
        if success listResult \<and> delegates listResult \<noteq> None
           \<and> \<not> some_delegate (delegates listResult) delegate then
          (res0\<lparr>success := False,
                message := Some (''Delegate '' @ show_opt delegate @ '' does not exist'')\<rparr>, w1)
        else
          (case delegates_delete gmail delegate w1 of
             (Inr done, w2) \<Rightarrow>
               (res0\<lparr>success := True,
                     message := Some (''Delegate '' @ show_opt delegate
                                       @ '' removed successfully'')\<rparr>, w2)
           | (Inl e, w2) \<Rightarrow>
               (res0\<lparr>success := False,
                     message := Some (or_default e ''Error removing delegate''),
                     r_error := Some (inspect_error e)\<rparr>,
                console_error (''Error removing delegate: '' @ inspect_error e) w2)))"

definition direct_processBatch_step :: "sa_file \<Rightarrow> request \<Rightarrow> world \<Rightarrow> result \<times> world" where
  "direct_processBatch_step serviceAccountPath op w =
     (case route_createGmailClient serviceAccountPath (userEmail op) w of
        (None, w1) \<Rightarrow>
          (res0\<lparr>success := False, r_userEmail := userEmail op, r_operation := operation op,
                message := Some ''Failed to create Gmail client''\<rparr>, w1)
      | (Some gmail, w1) \<Rightarrow>
          if operation op = Some ''list'' then
            (case route_listDelegates gmail w1 of (listResult, w2) \<Rightarrow>
               (listResult\<lparr>r_userEmail := userEmail op, r_operation := Some ''list'',
                    message := (if success listResult
                                then Some ''Delegates retrieved successfully''
                                else message listResult)\<rparr>, w2))
          else if operation op = Some ''add'' then
            (case addDelegateDirectly gmail (delegateEmail op) w1 of
               (addResult, w2) \<Rightarrow>
                 (addResult\<lparr>r_userEmail := userEmail op, r_delegateEmail := delegateEmail op,
                      r_operation := Some ''add''\<rparr>, w2))
          else if operation op = Some ''remove'' then
            (case removeDelegateDirectly gmail (delegateEmail op) w1 of
               (removeResult, w2) \<Rightarrow>
                 (removeResult\<lparr>r_userEmail := userEmail op, r_delegateEmail := delegateEmail op,
                      r_operation := Some ''remove''\<rparr>, w2))
          else
            (res0\<lparr>success := False, r_userEmail := userEmail op,
                  r_delegateEmail := delegateEmail op, r_operation := operation op,
                  message := Some (''Invalid operation: '' @ show_opt (operation op))\<rparr>, w1))"

definition direct_processBatch ::
  "sa_file \<Rightarrow> request list \<Rightarrow> world \<Rightarrow> result list \<times> world" where
  "direct_processBatch serviceAccountPath operations w =
     push_each (direct_processBatch_step serviceAccountPath) operations [] w"

section \<open>The submit handler of \<open>useDelegateFormHandler\<close>\<close>

record form_state =
  st_operation :: string
  st_userEmail :: string
  st_delegateEmail :: string
  batchMode :: bool
  batchEmails :: string
  isSubmitting :: bool
  showConfirmation :: bool

record form_data =
  fd_serviceAccount :: "sa_file option"
  fd_authMethod :: string
  fd_operation :: string
  fd_operations :: "request list option"
  fd_userEmail :: "string option"
  fd_delegateEmail :: "string option"

text \<open>
  \<open>onSubmit\<close> is given by the caller of the hook; calling it is the only way the handler
  reaches the server and the remote service. It returns \<open>False\<close> when the promise is
  rejected.
\<close>

record hook_options =
  authMethod :: "string option"
  serviceAccountFile :: "sa_file option"
  onSubmit :: "form_data \<Rightarrow> world \<Rightarrow> bool \<times> world"

text \<open>
  What one call of \<open>handleSubmit\<close> does: show a toast and return, ask for confirmation
  and return (the early return after \<open>setShowConfirmation(true)\<close>), or call \<open>onSubmit\<close>.
  \<open>parseBatchOperations\<close> has no \<open>throw\<close>, so the \<open>catch\<close> around it (the toast
  "Invalid format") is never entered and has no branch here; the logging of \<open>debugMode\<close>
  changes nothing and is left out.
\<close>

datatype outcome =
    Toast string string
  | AwaitingConfirmation
  | Submitted form_data
  | SubmitRejected form_data

definition needs_confirmation :: "form_state \<Rightarrow> bool" where
  "needs_confirmation s =
     ((st_operation s = ''remove'' \<or> (batchMode s \<and> str_includes (batchEmails s) ''remove''))
      \<and> \<not> showConfirmation s)"

definition build_form :: "string \<Rightarrow> sa_file \<Rightarrow> form_state \<Rightarrow> form_data" where
  "build_form safeAuthMethod file s =
     (if batchMode s then
        \<lparr>fd_serviceAccount = Some file, fd_authMethod = safeAuthMethod,
         fd_operation = st_operation s,
         fd_operations = Some (parseBatchOperations (batchEmails s)),
         fd_userEmail = None, fd_delegateEmail = None\<rparr>
      else
        \<lparr>fd_serviceAccount = Some file, fd_authMethod = safeAuthMethod,
         fd_operation = st_operation s, fd_operations = None,
         fd_userEmail = Some (st_userEmail s),
         fd_delegateEmail = (if st_delegateEmail s \<noteq> [] then Some (st_delegateEmail s)
                             else None)\<rparr>)"

definition reset_form :: "form_state \<Rightarrow> form_state" where
  "reset_form s =
     (if \<not> batchMode s then
        (if st_operation s \<noteq> ''list'' then s\<lparr>st_delegateEmail := []\<rparr> else s)
      else s\<lparr>batchEmails := []\<rparr>)"

definition handleSubmit ::
  "hook_options \<Rightarrow> form_state \<Rightarrow> world \<Rightarrow> outcome \<times> form_state \<times> world" where
  "handleSubmit opts s w =
     (let safeAuthMethod = (case authMethod opts of None \<Rightarrow> [] | Some a \<Rightarrow> a)
      in if safeAuthMethod = [] then
           (Toast ''Authentication required'' ''Please authenticate first'', s, w)
         else if \<not> batchMode s \<and> st_userEmail s = [] then
           (Toast ''Missing information'' ''Please enter the mailbox email address'', s, w)
         else if \<not> batchMode s \<and> (st_operation s = ''add'' \<or> st_operation s = ''remove'')
                 \<and> st_delegateEmail s = [] then
           (Toast ''Missing information'' ''Please enter the delegate email address'', s, w)
         else if batchMode s \<and> trim (batchEmails s) = [] then
           (Toast ''Missing information'' ''Please enter batch operations'', s, w)
         else if needs_confirmation s then
           (AwaitingConfirmation, s\<lparr>showConfirmation := True\<rparr>, w)
         else
           (case serviceAccountFile opts of
              None \<Rightarrow>
                (Toast ''Missing service account'' ''Service account file is required'',
                 s\<lparr>isSubmitting := False\<rparr>, w)
            | Some file \<Rightarrow>
                if safeAuthMethod \<noteq> ''service-account'' then
                  (Toast ''Missing service account'' ''Service account file is required'',
                   s\<lparr>isSubmitting := False\<rparr>, w)
                else
                  (let formData = build_form safeAuthMethod file s
                   in case onSubmit opts formData w of
                        (True, w') \<Rightarrow>
                          (Submitted formData,
                           (reset_form s)\<lparr>showConfirmation := False, isSubmitting := False\<rparr>,
                           w')
                      | (False, w') \<Rightarrow>
                          (SubmitRejected formData, s\<lparr>isSubmitting := False\<rparr>, w'))))"

text \<open>\<open>setBatchEmails\<close>: the caller edits the batch text.\<close>

definition setBatchEmails :: "string \<Rightarrow> form_state \<Rightarrow> form_state" where
  "setBatchEmails text s = s\<lparr>batchEmails := text\<rparr>"

section \<open>The \<open>POST\<close> handler of \<open>app/api/delegates/route.ts\<close>\<close>

text \<open>
  The JSON answers of the handler: the results of a batch, the result of one operation,
  or a message with an HTTP error status.
\<close>

datatype response =
    BatchResponse "result list"
  | OperationResponse result
  | ErrorResponse nat string

text \<open>
  Saving the uploaded key file and removing it afterwards are taken to succeed, and the
  \<open>operations\<close> field is the JSON that \<open>handleSubmit\<close> wrote, so the outer \<open>catch\<close> (status
  500) is not entered.
\<close>

definition POST :: "form_data \<Rightarrow> world \<Rightarrow> response \<times> world" where
  "POST formData w0 =
     (let w = console_log ''Delegates API called with POST method'' w0
      in case fd_serviceAccount formData of
           None \<Rightarrow> (ErrorResponse 400 ''Service account file is required'', w)
         | Some serviceAccountPath \<Rightarrow>
            (case fd_operations formData of
               Some operations \<Rightarrow>
                 (case processBatch serviceAccountPath operations w of
                    (results, w') \<Rightarrow> (BatchResponse results, w'))
             | None \<Rightarrow>
                 (let op = or_default (fd_operation formData) ''list'';
                      email = fd_userEmail formData
                  in if email = None \<or> email = Some [] then
                       (ErrorResponse 400 ''User email is required'', w)
                     else if op = ''list'' then
                       (case route_createGmailClient serviceAccountPath email w of
                          (None, w1) \<Rightarrow>
                            (ErrorResponse 500 ''Failed to create Gmail client'', w1)
                        | (Some gmail, w1) \<Rightarrow>
                            (case route_listDelegates gmail w1 of (listResult, w2) \<Rightarrow>
                               (OperationResponse
                                  (listResult\<lparr>r_userEmail := email,
                                     r_operation := Some ''list'',
                                     message := (if success listResult
                                                 then Some ''Delegates retrieved successfully''
                                                 else message listResult)\<rparr>), w2)))
                     else if op = ''add'' \<or> op = ''remove'' then
                       (let delegate = fd_delegateEmail formData
                        in if delegate = None \<or> delegate = Some [] then
                             (ErrorResponse 400 ''Delegate email is required'', w)
                           else if op = ''add'' then
                             (case addDelegate serviceAccountPath email delegate w of
                                (addResult, w1) \<Rightarrow>
                                  (OperationResponse
                                     (addResult\<lparr>r_userEmail := email,
                                        r_delegateEmail := delegate,
                                        r_operation := Some ''add''\<rparr>), w1))
                           else
                             (case removeDelegate serviceAccountPath email delegate w of
                                (removeResult, w1) \<Rightarrow>
                                  (OperationResponse
                                     (removeResult\<lparr>r_userEmail := email,
                                        r_delegateEmail := delegate,
                                        r_operation := Some ''remove''\<rparr>), w1)))
                     else (ErrorResponse 400 ''Invalid operation'', w))))"

text \<open>
  Modelled from the spec: the callback \<open>onSubmit\<close> that the application component
  passes to the hook is not among the sources. By the spec a confirmed submission is
  handed to the Batch Processor: the callback sends the form to the \<open>POST\<close> handler of
  the route (\<open>/api/delegates\<close>, the default endpoint of the hook). It is rejected when
  the answer has an error status.
\<close>

definition submit_to_route :: "form_data \<Rightarrow> world \<Rightarrow> bool \<times> world" where
  "submit_to_route formData w =
     (case POST formData w of
        (ErrorResponse status msg, w') \<Rightarrow> (False, w')
      | (answer, w') \<Rightarrow> (True, w'))"

section \<open>Concrete inputs\<close>

text \<open>
  A key, two worlds with an empty log (one where every remote call succeeds and the
  mailbox \<open>shared@example.com\<close> has the delegate \<open>user@example.com\<close>, one where every
  remote call fails) and a batch of two requests.
\<close>

definition example_key :: service_account where
  "example_key = \<lparr>client_email = ''admin@project.example.com'', private_key = ''secret''\<rparr>"

definition world_up :: world where
  "world_up =
     \<lparr>mailboxes = (\<lambda>m. if m = Some ''shared@example.com''
                         then [\<lparr>d_delegateEmail = Some ''user@example.com'',
                                d_verificationStatus = Some ''accepted''\<rparr>]
                         else []),
      faults = (\<lambda>history c. None), calls = [], stdout = [], stderr = []\<rparr>"

definition world_down :: world where
  "world_down =
     \<lparr>mailboxes = (\<lambda>m. []), faults = (\<lambda>history c. Some ''service unavailable''),
      calls = [], stdout = [], stderr = []\<rparr>"

definition example_batch :: "request list" where
  "example_batch =
     [\<lparr>operation = Some ''add'', userEmail = Some ''shared@example.com'',
       delegateEmail = Some ''user@example.com''\<rparr>,
      \<lparr>operation = Some ''list'', userEmail = Some ''other@example.com'',
       delegateEmail = None\<rparr>]"

definition example_client :: client where
  "example_client = \<lparr>account = example_key, subject = Some ''shared@example.com''\<rparr>"

text \<open>A world where listing the delegates fails and every other remote call succeeds.\<close>

definition world_list_down :: world where
  "world_list_down =
     \<lparr>mailboxes = (\<lambda>m. if m = Some ''shared@example.com''
                         then [\<lparr>d_delegateEmail = Some ''user@example.com'',
                                d_verificationStatus = Some ''accepted''\<rparr>]
                         else []),
      faults = (\<lambda>history c. case c of ListCall g \<Rightarrow> Some ''network error'' | _ \<Rightarrow> None),
      calls = [], stdout = [], stderr = []\<rparr>"

text \<open>
  A caller of the hook whose \<open>onSubmit\<close> sends the form to the route, a form in batch
  mode holding one removal, and the form data of one \<open>add\<close> request.
\<close>

definition example_options :: hook_options where
  "example_options =
     \<lparr>authMethod = Some ''service-account'', serviceAccountFile = Some (Key example_key),
      onSubmit = submit_to_route\<rparr>"

definition add_form_data :: form_data where
  "add_form_data =
     \<lparr>fd_serviceAccount = Some (Key example_key), fd_authMethod = ''service-account'',
      fd_operation = ''add'', fd_operations = None,
      fd_userEmail = Some ''shared@example.com'',
      fd_delegateEmail = Some ''user@example.com''\<rparr>"

definition example_form :: form_state where
  "example_form =
     \<lparr>st_operation = ''list'', st_userEmail = [], st_delegateEmail = [], batchMode = True,
      batchEmails = ''remove,shared@example.com,user@example.com'', isSubmitting = False,
      showConfirmation = False\<rparr>"


definition malformed_batch :: string where
  "malformed_batch = ''addshared@example.com,user@example.com''"

definition mixed_batch :: string where
  "mixed_batch = ''add,shared@example.com,boss@example.com'' @ [CHR 0x0A] @ malformed_batch"

section \<open>The batch loop\<close>

lemma push_each_acc:
  "push_each step xs acc w = (acc @ fst (push_each step xs [] w), snd (push_each step xs [] w))"
proof (induction xs arbitrary: acc w)
  case Nil
  show ?case by simp
next
  case (Cons x xs)
  obtain r w' where st: "step x w = (r, w')" by (cases "step x w")
  have a: "push_each step xs (acc @ [r]) w'
           = ((acc @ [r]) @ fst (push_each step xs [] w'), snd (push_each step xs [] w'))"
    by (rule Cons.IH)
  have b: "push_each step xs [r] w'
           = ([r] @ fst (push_each step xs [] w'), snd (push_each step xs [] w'))"
    using Cons.IH [of "[r]" w'] by simp
  show ?case using st a b by simp
qed

lemma push_each_Cons:
  "push_each step (x # xs) [] w =
     (fst (step x w) # fst (push_each step xs [] (snd (step x w))),
      snd (push_each step xs [] (snd (step x w))))"
proof -
  obtain r w' where st: "step x w = (r, w')" by (cases "step x w")
  show ?thesis using st push_each_acc [of step xs "[r]" w'] by simp
qed

lemma length_push_each: "length (fst (push_each step xs [] w)) = length xs"
  by (induction xs arbitrary: w) (simp_all add: push_each_Cons del: push_each.simps(2))

lemma push_each_nth:
  "i < length xs \<Longrightarrow>
   fst (push_each step xs [] w) ! i = fst (step (xs ! i) (snd (push_each step (take i xs) [] w)))"
proof (induction xs arbitrary: i w)
  case Nil
  then show ?case by simp
next
  case (Cons x xs)
  show ?case
  proof (cases i)
    case 0
    then show ?thesis by (simp add: push_each_Cons del: push_each.simps(2))
  next
    case (Suc j)
    with Cons.prems have "j < length xs" by simp
    from Cons.IH [OF this, of "snd (step x w)"] Suc show ?thesis
      by (simp add: push_each_Cons del: push_each.simps(2))
  qed
qed

lemma processBatch_step_tags:
  "r_userEmail (fst (processBatch_step sa op w)) = userEmail op \<and>
   r_operation (fst (processBatch_step sa op w)) = operation op"
  by (auto simp: processBatch_step_def split: prod.splits option.splits)

text \<open>
  C1. Batch processing returns exactly one result per request, in the order of the
  requests, whatever the remote service does: \<open>processBatchOperations\<close> (with or without
  a key file) and \<open>processBatch\<close> return as many results as there are requests, and
  the result at position \<open>i\<close> is the result of processing request \<open>i\<close> in the world left
  by the requests before it; in \<open>processBatch\<close> it is tagged with the mailbox and the
  operation of request \<open>i\<close>. The loop has no exit other than the end of the list.
\<close>

theorem batch_results_aligned:
  "length (fst (processBatchOperations ops sf w)) = length ops \<and>
   length (fst (processBatch sa ops w)) = length ops \<and>
   (\<forall>i<length ops.
      fst (processBatchOperations ops (Some f) w) ! i =
        fst (processDelegateOperation (operation (ops ! i)) (userEmail (ops ! i))
               (delegateEmail (ops ! i)) (Some f)
               (snd (processBatchOperations (take i ops) (Some f) w))) \<and>
      fst (processBatch sa ops w) ! i =
        fst (processBatch_step sa (ops ! i) (snd (processBatch sa (take i ops) w))) \<and>
      r_userEmail (fst (processBatch sa ops w) ! i) = userEmail (ops ! i) \<and>
      r_operation (fst (processBatch sa ops w) ! i) = operation (ops ! i))"
proof -
  have len1: "length (fst (processBatchOperations ops sf w)) = length ops"
    by (cases sf) (simp_all add: processBatchOperations_def length_push_each)
  have len2: "length (fst (processBatch sa ops w)) = length ops"
    by (simp add: processBatch_def length_push_each)
  have pos: "fst (processBatchOperations ops (Some f) w) ! i =
        fst (processDelegateOperation (operation (ops ! i)) (userEmail (ops ! i))
               (delegateEmail (ops ! i)) (Some f)
               (snd (processBatchOperations (take i ops) (Some f) w))) \<and>
      fst (processBatch sa ops w) ! i =
        fst (processBatch_step sa (ops ! i) (snd (processBatch sa (take i ops) w))) \<and>
      r_userEmail (fst (processBatch sa ops w) ! i) = userEmail (ops ! i) \<and>
      r_operation (fst (processBatch sa ops w) ! i) = operation (ops ! i)"
    if "i < length ops" for i
  proof -
    have a: "fst (processBatchOperations ops (Some f) w) ! i =
        fst (processDelegateOperation (operation (ops ! i)) (userEmail (ops ! i))
               (delegateEmail (ops ! i)) (Some f)
               (snd (processBatchOperations (take i ops) (Some f) w)))"
      using that by (simp add: processBatchOperations_def push_each_nth)
    have b: "fst (processBatch sa ops w) ! i =
        fst (processBatch_step sa (ops ! i) (snd (processBatch sa (take i ops) w)))"
      using that by (simp add: processBatch_def push_each_nth)
    show ?thesis by (simp only: a b processBatch_step_tags)
  qed
  from len1 len2 pos show ?thesis by blast
qed

theorem batch_results_aligned_witness:
  "(1::nat) < length example_batch \<and>
   length (fst (processBatchOperations example_batch (Some (Key example_key)) world_down)) = 2 \<and>
   length (fst (processBatch (Key example_key) example_batch world_down)) = 2 \<and>
   r_userEmail (fst (processBatch (Key example_key) example_batch world_down) ! 1)
     = Some ''other@example.com'' \<and>
   r_operation (fst (processBatch (Key example_key) example_batch world_down) ! 1)
     = Some ''list''"
proof -
  have h: "(1::nat) < length example_batch"
    by (simp add: example_batch_def)
  note t = batch_results_aligned [of example_batch "Some (Key example_key)" world_down
      "Key example_key" "Key example_key"]
  from t have len:
    "length (fst (processBatchOperations example_batch (Some (Key example_key)) world_down))
       = length example_batch"
    "length (fst (processBatch (Key example_key) example_batch world_down))
       = length example_batch"
    by simp_all
  from t h have tags:
    "r_userEmail (fst (processBatch (Key example_key) example_batch world_down) ! 1)
       = userEmail (example_batch ! 1) \<and>
     r_operation (fst (processBatch (Key example_key) example_batch world_down) ! 1)
       = operation (example_batch ! 1)"
    by blast
  from h len tags show ?thesis
    by (simp add: example_batch_def)
qed

text \<open>
  C10. Without a service account file \<open>processBatchOperations\<close> returns one result per
  operation, each with \<open>success = false\<close> and the message "Service account file is
  required", tagged with the fields of its operation, and the world is untouched: no
  remote call of any kind is issued.
\<close>

theorem missing_service_account_file:
  "length (fst (processBatchOperations ops None w)) = length ops \<and>
   (\<forall>i<length ops.
      \<not> success (fst (processBatchOperations ops None w) ! i) \<and>
      message (fst (processBatchOperations ops None w) ! i)
        = Some ''Service account file is required'' \<and>
      r_userEmail (fst (processBatchOperations ops None w) ! i) = userEmail (ops ! i) \<and>
      r_delegateEmail (fst (processBatchOperations ops None w) ! i) = delegateEmail (ops ! i) \<and>
      r_operation (fst (processBatchOperations ops None w) ! i) = operation (ops ! i)) \<and>
   snd (processBatchOperations ops None w) = w \<and>
   calls (snd (processBatchOperations ops None w)) = calls w"
  by (simp add: processBatchOperations_def op_result_def res0_def)

theorem missing_service_account_file_witness:
  "(1::nat) < length example_batch \<and>
   \<not> success (fst (processBatchOperations example_batch None world_down) ! 1) \<and>
   message (fst (processBatchOperations example_batch None world_down) ! 1)
     = Some ''Service account file is required'' \<and>
   calls (snd (processBatchOperations example_batch None world_down)) = []"
proof -
  have h: "(1::nat) < length example_batch"
    by (simp add: example_batch_def)
  note t = missing_service_account_file [of example_batch world_down]
  from t h have entry:
    "\<not> success (fst (processBatchOperations example_batch None world_down) ! 1) \<and>
     message (fst (processBatchOperations example_batch None world_down) ! 1)
       = Some ''Service account file is required''"
    by blast
  from t have "calls (snd (processBatchOperations example_batch None world_down))
                 = calls world_down"
    by simp
  with h entry show ?thesis
    by (simp add: world_down_def)
qed

section \<open>Splitting and trimming\<close>

lemma split_on_not_Nil: "split_on c s \<noteq> []"
  by (induction s) (auto split: list.splits)

lemma hd_split_on_prefix: "prefix (hd (split_on c s)) s"
proof (induction s)
  case Nil
  show ?case by simp
next
  case (Cons x xs)
  then show ?case
    using split_on_not_Nil [of c xs] by (auto split: list.splits)
qed

lemma in_split_on_sublist: "f \<in> set (split_on c s) \<Longrightarrow> sublist f s"
proof (induction s arbitrary: f)
  case Nil
  then show ?case by simp
next
  case (Cons x xs)
  show ?case
  proof (cases "x = c")
    case True
    with Cons.prems have "f = [] \<or> f \<in> set (split_on c xs)" by auto
    then show ?thesis using Cons.IH by (auto simp: sublist_Cons_right)
  next
    case False
    obtain y ys where sp: "split_on c xs = y # ys"
      using split_on_not_Nil [of c xs] by (cases "split_on c xs") auto
    with False Cons.prems have "f = x # y \<or> f \<in> set ys" by auto
    then show ?thesis
    proof
      assume "f = x # y"
      moreover have "prefix y xs" using hd_split_on_prefix [of c xs] sp by simp
      ultimately show ?thesis by (simp add: sublist_Cons_right)
    next
      assume "f \<in> set ys"
      then have "sublist f xs" using Cons.IH sp by simp
      then show ?thesis by (simp add: sublist_Cons_right)
    qed
  qed
qed

lemma trim_sublist: "sublist (trim s) s"
proof -
  have "suffix (dropWhile is_space (rev (dropWhile is_space s))) (rev (dropWhile is_space s))"
    by (rule suffix_dropWhile)
  then have "prefix (trim s) (dropWhile is_space s)"
    by (simp add: trim_def suffix_to_prefix)
  moreover have "suffix (dropWhile is_space s) s"
    by (rule suffix_dropWhile)
  ultimately show ?thesis
    by (auto simp: sublist_altdef')
qed

lemma trim_Nil_iff: "trim s = [] \<longleftrightarrow> (\<forall>c\<in>set s. is_space c)"
proof
  assume t: "trim s = []"
  show "\<forall>c\<in>set s. is_space c"
  proof (cases "dropWhile is_space s")
    case Nil
    then show ?thesis by (simp add: dropWhile_eq_Nil_conv)
  next
    case (Cons x xs)
    then have "\<not> is_space x" using hd_dropWhile [of is_space s] by auto
    moreover from t have "\<forall>c\<in>set (dropWhile is_space s). is_space c"
      by (simp add: trim_def dropWhile_eq_Nil_conv)
    ultimately show ?thesis using Cons by simp
  qed
next
  assume "\<forall>c\<in>set s. is_space c"
  then show "trim s = []"
    by (auto simp: trim_def dropWhile_eq_Nil_conv dest: set_dropWhileD)
qed

lemma operation_in_text:
  assumes "r \<in> set (parseBatchOperations b)" and "operation r = Some x"
  shows "sublist x b"
proof -
  from assms(1) obtain line where line: "line \<in> set (split_on CHR 0x0A b)" and r: "r = parse_line line"
    by (auto simp: parseBatchOperations_def)
  have ne: "split_on CHR '','' line \<noteq> []" by (rule split_on_not_Nil)
  then have "operation r = Some (trim (hd (split_on CHR '','' line)))"
    by (simp add: r parse_line_def item_at_def hd_conv_nth nth_map Let_def)
  with assms(2) have x: "x = trim (hd (split_on CHR '','' line))" by simp
  have "sublist x (hd (split_on CHR '','' line))" by (simp add: x trim_sublist)
  moreover have "sublist (hd (split_on CHR '','' line)) line"
    using ne by (intro in_split_on_sublist [of _ "CHR '',''"]) simp
  moreover have "sublist line b" using line by (rule in_split_on_sublist)
  ultimately show ?thesis by (meson sublist_order.order_trans)
qed

lemma remove_not_blank: "sublist ''remove'' b \<Longrightarrow> trim b \<noteq> []"
proof -
  assume "sublist ''remove'' b"
  then have "set ''remove'' \<subseteq> set b" by (rule set_mono_sublist)
  then have "CHR ''r'' \<in> set b" by auto
  moreover have "\<not> is_space CHR ''r''" by (simp add: is_space_def)
  ultimately show ?thesis by (auto simp: trim_Nil_iff)
qed

section \<open>Unfolding the model on concrete inputs\<close>

lemmas parse_eval = parseBatchOperations_def parse_line_def trim_def is_space_def item_at_def


lemmas script_eval = removeDelegate_def addDelegate_def execPromise_def deleteDelegateAccount_def
  addDelegateAccount_def script_result_def createGmailClient_def listDelegates_def
  delegates_list_def delegates_create_def delegates_delete_def issue_def console_log_def
  console_error_def some_delegate_def show_opt_def res0_def trim_def is_space_def
  str_includes_def sublist_code falsy_undefined_def inspect_delegate_def inspect_error_def
  script_error_def or_default_def Let_def

section \<open>From the submit handler to the batch processor\<close>


lemma handleSubmit_sends:
  assumes "authMethod opts = Some ''service-account''"
    and "serviceAccountFile opts = Some file"
    and "batchMode s" and "trim (batchEmails s) \<noteq> []"
    and "\<not> needs_confirmation s"
  shows "handleSubmit opts s w =
           (let formData = build_form ''service-account'' file s;
                sent = onSubmit opts formData w
            in (if fst sent then Submitted formData else SubmitRejected formData,
                if fst sent
                then (reset_form s)\<lparr>showConfirmation := False, isSubmitting := False\<rparr>
                else s\<lparr>isSubmitting := False\<rparr>,
                snd sent))"
  using assms
  by (cases "onSubmit opts (build_form ''service-account'' file s) w")
     (auto simp: handleSubmit_def Let_def split: bool.splits)

lemma POST_batch:
  assumes "fd_serviceAccount formData = Some file" and "fd_operations formData = Some ops"
  shows "POST formData w =
           (BatchResponse
              (fst (processBatch file ops
                      (console_log ''Delegates API called with POST method'' w))),
            snd (processBatch file ops
                   (console_log ''Delegates API called with POST method'' w)))"
  using assms by (simp add: POST_def Let_def split: prod.splits)

lemma submit_to_route_batch:
  assumes "fd_serviceAccount formData = Some file" and "fd_operations formData = Some ops"
  shows "submit_to_route formData w =
           (True, snd (processBatch file ops
                         (console_log ''Delegates API called with POST method'' w)))"
  by (simp add: submit_to_route_def POST_batch [OF assms])

lemma build_form_batch:
  assumes "batchMode s"
  shows "fd_serviceAccount (build_form a file s) = Some file"
    and "fd_operations (build_form a file s) = Some (parseBatchOperations (batchEmails s))"
  using assms by (simp_all add: build_form_def)

lemma processBatch_step_remove:
  assumes "operation op = Some ''remove''"
  shows "fst (processBatch_step file op w) =
           (fst (removeDelegate file (userEmail op) (delegateEmail op) w))
             \<lparr>r_userEmail := userEmail op, r_delegateEmail := delegateEmail op,
              r_operation := Some ''remove''\<rparr>"
  using assms by (simp add: processBatch_step_def split: prod.splits)

section \<open>The confirmation step of \<open>handleSubmit\<close>\<close>

text \<open>
  C5. With a credential supplied (service-account authentication and a key file), a batch
  that contains at least one \<open>remove\<close> request and is submitted while the confirmation
  flag \<open>showConfirmation\<close> is false is not sent: \<open>handleSubmit\<close> returns after setting the
  flag, and the world is unchanged (no remote call). Submitted again with the flag set,
  the same batch goes to \<open>onSubmit\<close> with exactly its parsed operations. When \<open>onSubmit\<close>
  sends the form to the route, the \<open>POST\<close> handler answers with the results of
  \<open>processBatch\<close> on these operations and the world is the one \<open>processBatch\<close> leaves:
  one result per request, the result at position \<open>i\<close> being that of the loop body on
  request \<open>i\<close>, and for a \<open>remove\<close> request the result of \<open>removeDelegate\<close>.
\<close>

theorem removal_needs_confirmation:
  assumes auth: "authMethod opts = Some ''service-account''"
    and key: "serviceAccountFile opts = Some file"
    and batch: "batchMode s"
    and remove: "\<exists>r\<in>set (parseBatchOperations (batchEmails s)). operation r = Some ''remove''"
    and flag: "\<not> showConfirmation s"
  shows "handleSubmit opts s w = (AwaitingConfirmation, s\<lparr>showConfirmation := True\<rparr>, w) \<and>
         handleSubmit opts (s\<lparr>showConfirmation := True\<rparr>) w =
           (let formData = build_form ''service-account'' file s;
                sent = onSubmit opts formData w
            in (if fst sent then Submitted formData else SubmitRejected formData,
                if fst sent
                then (reset_form s)\<lparr>showConfirmation := False, isSubmitting := False\<rparr>
                else s\<lparr>showConfirmation := True, isSubmitting := False\<rparr>,
                snd sent)) \<and>
         fd_operations (build_form ''service-account'' file s)
           = Some (parseBatchOperations (batchEmails s)) \<and>
         (onSubmit opts = submit_to_route \<longrightarrow>
            (let ops = parseBatchOperations (batchEmails s);
                 formData = build_form ''service-account'' file s;
                 w0 = console_log ''Delegates API called with POST method'' w
             in handleSubmit opts (s\<lparr>showConfirmation := True\<rparr>) w =
                  (Submitted formData,
                   (reset_form s)\<lparr>showConfirmation := False, isSubmitting := False\<rparr>,
                   snd (processBatch file ops w0)) \<and>
                POST formData w =
                  (BatchResponse (fst (processBatch file ops w0)),
                   snd (processBatch file ops w0)) \<and>
                length (fst (processBatch file ops w0)) = length ops \<and>
                (\<forall>i<length ops.
                   fst (processBatch file ops w0) ! i =
                     fst (processBatch_step file (ops ! i)
                            (snd (processBatch file (take i ops) w0))) \<and>
                   (operation (ops ! i) = Some ''remove'' \<longrightarrow>
                      fst (processBatch file ops w0) ! i =
                        (fst (removeDelegate file (userEmail (ops ! i)) (delegateEmail (ops ! i))
                                (snd (processBatch file (take i ops) w0))))
                          \<lparr>r_userEmail := userEmail (ops ! i),
                           r_delegateEmail := delegateEmail (ops ! i),
                           r_operation := Some ''remove''\<rparr>))))"
proof -
  let ?ops = "parseBatchOperations (batchEmails s)"
  let ?fd = "build_form ''service-account'' file s"
  let ?w0 = "console_log ''Delegates API called with POST method'' w"
  from remove obtain r where "r \<in> set ?ops" and "operation r = Some ''remove''" by blast
  then have inc: "sublist ''remove'' (batchEmails s)" by (rule operation_in_text)
  then have nb: "trim (batchEmails s) \<noteq> []" by (rule remove_not_blank)
  have first: "handleSubmit opts s w = (AwaitingConfirmation, s\<lparr>showConfirmation := True\<rparr>, w)"
    using auth batch flag inc nb
    by (simp add: handleSubmit_def needs_confirmation_def str_includes_def)
  have second: "handleSubmit opts (s\<lparr>showConfirmation := True\<rparr>) w =
           (let formData = ?fd; sent = onSubmit opts formData w
            in (if fst sent then Submitted formData else SubmitRejected formData,
                if fst sent
                then (reset_form s)\<lparr>showConfirmation := False, isSubmitting := False\<rparr>
                else s\<lparr>showConfirmation := True, isSubmitting := False\<rparr>,
                snd sent))"
    using auth key batch nb
    by (cases "onSubmit opts (build_form ''service-account'' file s) w")
       (auto simp: handleSubmit_def needs_confirmation_def build_form_def reset_form_def Let_def)
  have third: "fd_operations ?fd = Some ?ops"
    using batch by (simp add: build_form_def)
  have fs: "fd_serviceAccount ?fd = Some file"
    using batch by (simp add: build_form_def)
  have post: "POST ?fd w = (BatchResponse (fst (processBatch file ?ops ?w0)),
                            snd (processBatch file ?ops ?w0))"
    using fs third by (rule POST_batch)
  have sub: "submit_to_route ?fd w = (True, snd (processBatch file ?ops ?w0))"
    using fs third by (rule submit_to_route_batch)
  have len: "length (fst (processBatch file ?ops ?w0)) = length ?ops"
    by (simp add: processBatch_def length_push_each)
  have pos: "fst (processBatch file ?ops ?w0) ! i =
               fst (processBatch_step file (?ops ! i) (snd (processBatch file (take i ?ops) ?w0)))"
    if "i < length ?ops" for i
    using that by (simp add: processBatch_def push_each_nth)
  have rem: "fst (processBatch file ?ops ?w0) ! i =
               (fst (removeDelegate file (userEmail (?ops ! i)) (delegateEmail (?ops ! i))
                       (snd (processBatch file (take i ?ops) ?w0))))
                 \<lparr>r_userEmail := userEmail (?ops ! i), r_delegateEmail := delegateEmail (?ops ! i),
                  r_operation := Some ''remove''\<rparr>"
    if "i < length ?ops" and "operation (?ops ! i) = Some ''remove''" for i
    using that by (simp add: pos processBatch_step_remove)
  have routed: "handleSubmit opts (s\<lparr>showConfirmation := True\<rparr>) w =
                  (Submitted ?fd,
                   (reset_form s)\<lparr>showConfirmation := False, isSubmitting := False\<rparr>,
                   snd (processBatch file ?ops ?w0))"
    if "onSubmit opts = submit_to_route"
    using second that sub by (simp add: Let_def)
  from first second third post len pos rem routed show ?thesis
    by (simp add: Let_def)
qed


theorem removal_needs_confirmation_witness:
  "authMethod example_options = Some ''service-account'' \<and>
   serviceAccountFile example_options = Some (Key example_key) \<and>
   batchMode example_form \<and>
   parseBatchOperations (batchEmails example_form)
     = [\<lparr>operation = Some ''remove'', userEmail = Some ''shared@example.com'',
         delegateEmail = Some ''user@example.com''\<rparr>] \<and>
   \<not> showConfirmation example_form \<and>
   handleSubmit example_options example_form world_up
     = (AwaitingConfirmation, example_form\<lparr>showConfirmation := True\<rparr>, world_up) \<and>
   fst (handleSubmit example_options (example_form\<lparr>showConfirmation := True\<rparr>) world_up)
     = Submitted (build_form ''service-account'' (Key example_key) example_form) \<and>
   list_ex is_delete
     (calls (snd (snd (handleSubmit example_options
                         (example_form\<lparr>showConfirmation := True\<rparr>) world_up)))) \<and>
   mailboxes (snd (snd (handleSubmit example_options
                          (example_form\<lparr>showConfirmation := True\<rparr>) world_up)))
     (Some ''shared@example.com'') = []"
proof -
  have auth: "authMethod example_options = Some ''service-account''"
    and key: "serviceAccountFile example_options = Some (Key example_key)"
    and routed: "onSubmit example_options = submit_to_route"
    by (simp_all add: example_options_def)
  have batch: "batchMode example_form" and flag: "\<not> showConfirmation example_form"
    by (simp_all add: example_form_def)
  have parsed: "parseBatchOperations (batchEmails example_form)
     = [\<lparr>operation = Some ''remove'', userEmail = Some ''shared@example.com'',
         delegateEmail = Some ''user@example.com''\<rparr>]"
    by (simp add: example_form_def parse_eval)
  then have remove:
    "\<exists>r\<in>set (parseBatchOperations (batchEmails example_form)). operation r = Some ''remove''"
    by simp
  note t = removal_needs_confirmation [OF auth key batch remove flag, of world_up]
  from t have first: "handleSubmit example_options example_form world_up
     = (AwaitingConfirmation, example_form\<lparr>showConfirmation := True\<rparr>, world_up)"
    by simp
  note r = t [THEN conjunct2, THEN conjunct2, THEN conjunct2, THEN mp, OF routed,
      unfolded Let_def]
  from r have second:
    "handleSubmit example_options (example_form\<lparr>showConfirmation := True\<rparr>) world_up
       = (Submitted (build_form ''service-account'' (Key example_key) example_form),
          (reset_form example_form)\<lparr>showConfirmation := False, isSubmitting := False\<rparr>,
          snd (processBatch (Key example_key) (parseBatchOperations (batchEmails example_form))
                 (console_log ''Delegates API called with POST method'' world_up)))"
    by (rule conjunct1)
  have run: "list_ex is_delete
       (calls (snd (processBatch (Key example_key)
                      (parseBatchOperations (batchEmails example_form))
                      (console_log ''Delegates API called with POST method'' world_up)))) \<and>
     mailboxes (snd (processBatch (Key example_key)
                       (parseBatchOperations (batchEmails example_form))
                       (console_log ''Delegates API called with POST method'' world_up)))
       (Some ''shared@example.com'') = []"
    by (simp add: parsed processBatch_def processBatch_step_def script_eval world_up_def
          example_key_def)
  from auth key batch flag parsed first second run show ?thesis by simp
qed

section \<open>The confirmation flag is state of the hook\<close>




section \<open>The batch parser never rejects a batch\<close>

text \<open>
  C4. The claim asks that a batch with a malformed line fails as a whole, before anything
  is executed. \<open>handleSubmit\<close> wraps the parser in a \<open>try\<close> whose \<open>catch\<close> would show
  "Invalid format" and return, but \<open>parseBatchOperations\<close> checks nothing and never
  throws. The line \<open>addshared@example.com,user@example.com\<close> (no comma after the kind)
  parses to one request whose operation is \<open>addshared@example.com\<close>; the batch is sent, and
  the route answers that one request with "Invalid operation". A line with too many
  fields parses to a request of its first three. In a batch with a good line before the
  malformed one the good line is executed: the create call is issued.
\<close>

theorem malformed_batch_is_executed:
  "parseBatchOperations malformed_batch
     = [\<lparr>operation = Some ''addshared@example.com'', userEmail = Some ''user@example.com'',
         delegateEmail = None\<rparr>] \<and>
   fst (handleSubmit example_options (setBatchEmails malformed_batch example_form) world_up)
     = Submitted (build_form ''service-account'' (Key example_key)
                    (setBatchEmails malformed_batch example_form)) \<and>
   fst (POST (build_form ''service-account'' (Key example_key)
                (setBatchEmails malformed_batch example_form)) world_up)
     = BatchResponse
         [res0\<lparr>success := False, r_userEmail := Some ''user@example.com'',
               r_operation := Some ''addshared@example.com'',
               message := Some ''Invalid operation: addshared@example.com''\<rparr>] \<and>
   parseBatchOperations ''add,shared@example.com,boss@example.com,extra,more''
     = [\<lparr>operation = Some ''add'', userEmail = Some ''shared@example.com'',
         delegateEmail = Some ''boss@example.com''\<rparr>] \<and>
   length (parseBatchOperations mixed_batch) = 2 \<and>
   fst (handleSubmit example_options (setBatchEmails mixed_batch example_form) world_up)
     = Submitted (build_form ''service-account'' (Key example_key)
                    (setBatchEmails mixed_batch example_form)) \<and>
   list_ex is_create
     (calls (snd (snd (handleSubmit example_options
                         (setBatchEmails mixed_batch example_form) world_up))))"
proof -
  have auth: "authMethod example_options = Some ''service-account''"
    and key: "serviceAccountFile example_options = Some (Key example_key)"
    and routed: "onSubmit example_options = submit_to_route"
    by (simp_all add: example_options_def)
  have a: "parseBatchOperations malformed_batch
     = [\<lparr>operation = Some ''addshared@example.com'', userEmail = Some ''user@example.com'',
         delegateEmail = None\<rparr>]"
    by (simp add: malformed_batch_def parse_eval)
  have c: "parseBatchOperations mixed_batch
     = [\<lparr>operation = Some ''add'', userEmail = Some ''shared@example.com'',
         delegateEmail = Some ''boss@example.com''\<rparr>,
        \<lparr>operation = Some ''addshared@example.com'', userEmail = Some ''user@example.com'',
         delegateEmail = None\<rparr>]"
    by (simp add: mixed_batch_def malformed_batch_def parse_eval)
  let ?m = "setBatchEmails malformed_batch example_form"
  have m: "batchMode ?m" "trim (batchEmails ?m) \<noteq> []" "\<not> needs_confirmation ?m"
    by (simp_all add: setBatchEmails_def example_form_def malformed_batch_def
          needs_confirmation_def trim_def is_space_def str_includes_def sublist_code)
  let ?x = "setBatchEmails mixed_batch example_form"
  have x: "batchMode ?x" "trim (batchEmails ?x) \<noteq> []" "\<not> needs_confirmation ?x"
    by (simp_all add: setBatchEmails_def example_form_def mixed_batch_def malformed_batch_def
          needs_confirmation_def trim_def is_space_def str_includes_def sublist_code)
  have ops: "fd_operations (build_form ''service-account'' (Key example_key) ?x)
               = Some (parseBatchOperations mixed_batch)"
            "fd_operations (build_form ''service-account'' (Key example_key) ?m)
               = Some (parseBatchOperations malformed_batch)"
    using build_form_batch(2) [OF m(1)] build_form_batch(2) [OF x(1)]
    by (simp_all add: setBatchEmails_def)
  have subm: "submit_to_route (build_form ''service-account'' (Key example_key) ?m) world_up
       = (True, snd (processBatch (Key example_key) (parseBatchOperations malformed_batch)
                       (console_log ''Delegates API called with POST method'' world_up)))"
    using build_form_batch(1) [OF m(1)] ops(2) by (rule submit_to_route_batch)
  have subx: "submit_to_route (build_form ''service-account'' (Key example_key) ?x) world_up
       = (True, snd (processBatch (Key example_key) (parseBatchOperations mixed_batch)
                       (console_log ''Delegates API called with POST method'' world_up)))"
    using build_form_batch(1) [OF x(1)] ops(1) by (rule submit_to_route_batch)
  have b: "fst (handleSubmit example_options ?m world_up)
     = Submitted (build_form ''service-account'' (Key example_key) ?m)"
    using handleSubmit_sends [OF auth key m, of world_up] subm
    by (simp add: Let_def routed)
  have p: "fst (POST (build_form ''service-account'' (Key example_key) ?m) world_up)
     = BatchResponse
         [res0\<lparr>success := False, r_userEmail := Some ''user@example.com'',
               r_operation := Some ''addshared@example.com'',
               message := Some ''Invalid operation: addshared@example.com''\<rparr>]"
    using POST_batch [OF build_form_batch(1) [OF m(1)] ops(2), of world_up]
    by (simp add: a processBatch_def processBatch_step_def show_opt_def res0_def)
  have d: "handleSubmit example_options ?x world_up
     = (Submitted (build_form ''service-account'' (Key example_key) ?x),
        (reset_form ?x)\<lparr>showConfirmation := False, isSubmitting := False\<rparr>,
        snd (processBatch (Key example_key) (parseBatchOperations mixed_batch)
               (console_log ''Delegates API called with POST method'' world_up)))"
    using handleSubmit_sends [OF auth key x, of world_up] subx
    by (simp add: Let_def routed)
  have e: "list_ex is_create
     (calls (snd (processBatch (Key example_key) (parseBatchOperations mixed_batch)
                    (console_log ''Delegates API called with POST method'' world_up))))"
    by (simp add: c processBatch_def processBatch_step_def script_eval world_up_def
          example_key_def)
  have f: "parseBatchOperations ''add,shared@example.com,boss@example.com,extra,more''
     = [\<lparr>operation = Some ''add'', userEmail = Some ''shared@example.com'',
         delegateEmail = Some ''boss@example.com''\<rparr>]"
    by (simp add: parse_eval)
  from a b p c d e f show ?thesis by simp
qed

section \<open>The idempotency guard\<close>

text \<open>
  \<open>processDelegateOperation\<close> lists the delegates before it mutates. When the list call
  succeeds, a removal of an absent delegate and an addition of a present one end with a
  failed result and the "does not exist" or "already exists" message; when the list call
  fails, its failed result is returned. In the three cases the only remote calls issued
  are the two probes of \<open>createGmailClient\<close> and the list call: none is a mutation.
\<close>

lemma createGmailClient_calls:
  assumes "createGmailClient k u w = (r, w')"
  shows "\<exists>cs. calls w' = calls w @ cs \<and> list_all (\<lambda>c. \<not> is_mutating c) cs"
  using assms
  by (auto simp: createGmailClient_def issue_def console_error_def Let_def
           split: option.splits)

lemma listDelegates_calls:
  assumes "listDelegates g w = (r, w')"
  shows "calls w' = calls w @ [ListCall g]"
  using assms
  by (auto simp: listDelegates_def delegates_list_def issue_def console_error_def
           split: option.splits)

lemma utils_remove_absent:
  assumes "createGmailClient k u w = (Some g, w1)"
    and "listDelegates g w1 = (listResult, w2)"
    and "success listResult"
    and "\<not> some_delegate (delegates listResult) d"
  shows "processDelegateOperation (Some ''remove'') u d (Some (Key k)) w =
           (op_result False (Some ''remove'') u d
              (''Delegate '' @ show_opt d @ '' does not exist''), w2)"
  using assms by (simp add: processDelegateOperation_def)

lemma utils_add_existing:
  assumes "createGmailClient k u w = (Some g, w1)"
    and "listDelegates g w1 = (listResult, w2)"
    and "success listResult"
    and "some_delegate (delegates listResult) d"
  shows "processDelegateOperation (Some ''add'') u d (Some (Key k)) w =
           (op_result False (Some ''add'') u d
              (''Delegate '' @ show_opt d @ '' already exists''), w2)"
  using assms by (simp add: processDelegateOperation_def)

lemma utils_list_failure:
  assumes "createGmailClient k u w = (Some g, w1)"
    and "listDelegates g w1 = (listResult, w2)"
    and "\<not> success listResult"
  shows "processDelegateOperation op u d (Some (Key k)) w = (listResult, w2)"
  using assms by (simp add: processDelegateOperation_def)

lemma utils_guard_calls:
  assumes "createGmailClient k u w = (Some g, w1)"
    and "listDelegates g w1 = (listResult, w2)"
  shows "\<exists>cs. calls w2 = calls w @ cs \<and> list_all (\<lambda>c. \<not> is_mutating c) cs"
proof -
  from createGmailClient_calls [OF assms(1)] obtain cs
    where "calls w1 = calls w @ cs" and "list_all (\<lambda>c. \<not> is_mutating c) cs" by blast
  with listDelegates_calls [OF assms(2)]
  have "calls w2 = calls w @ (cs @ [ListCall g]) \<and>
        list_all (\<lambda>c. \<not> is_mutating c) (cs @ [ListCall g])" by simp
  then show ?thesis by blast
qed

lemma createGmailClient_probe:
  assumes "faults w (calls w) (GetAccessToken \<lparr>account = k, subject = u\<rparr>) = Some e"
  shows "fst (createGmailClient k u w) = None"
  using assms by (simp add: createGmailClient_def issue_def)

text \<open>
  The API route runs the scripts instead and reads the outcome off their output: the
  result is a success exactly when \<open>stderr\<close> is empty (or mentions
  \<open>ExperimentalWarning\<close>) and \<open>stdout\<close> does not contain the word \<open>Error\<close>.
\<close>

lemma script_result_success:
  "success (fst (script_result (out, err) ok failed w)) =
     (\<not> (err \<noteq> [] \<and> \<not> str_includes err ''ExperimentalWarning'') \<and> \<not> str_includes out ''Error'')"
  by (simp add: script_result_def res0_def Let_def)

text \<open>
  C2. The claim asks that removing a delegate that the mailbox does not have gives
  \<open>success = false\<close> and a "does not exist" message. \<open>removeDelegate\<close> of the API route
  does not: for the mailbox \<open>shared@example.com\<close>, whose only delegate is
  \<open>user@example.com\<close>, removing \<open>absent@example.com\<close> returns \<open>success = true\<close> and
  the message that the delegate was removed. The script printed "does not exist ...
  Skipping." with \<open>console.log\<close>, and that line has no \<open>Error\<close> in it. No delete call is
  issued, as the claim says.
\<close>

theorem remove_absent_reported_removed:
  "success (fst (removeDelegate (Key example_key) (Some ''shared@example.com'')
                   (Some ''absent@example.com'') world_up)) \<and>
   message (fst (removeDelegate (Key example_key) (Some ''shared@example.com'')
                   (Some ''absent@example.com'') world_up))
     = Some ''Delegate absent@example.com removed successfully from shared@example.com.'' \<and>
   \<not> list_ex is_delete
        (calls (snd (removeDelegate (Key example_key) (Some ''shared@example.com'')
                       (Some ''absent@example.com'') world_up)))"
  by (simp add: script_eval world_up_def example_key_def)

text \<open>
  C3. The claim asks that adding a delegate that the mailbox already has gives
  \<open>success = false\<close> and an "already exists" message. \<open>addDelegate\<close> of the API route
  does not: adding \<open>user@example.com\<close> to \<open>shared@example.com\<close>, which has it, returns
  \<open>success = true\<close> and the message that the delegate was added. No create call is
  issued, as the claim says.
\<close>

theorem add_existing_reported_added:
  "success (fst (addDelegate (Key example_key) (Some ''shared@example.com'')
                   (Some ''user@example.com'') world_up)) \<and>
   message (fst (addDelegate (Key example_key) (Some ''shared@example.com'')
                   (Some ''user@example.com'') world_up))
     = Some ''Delegate user@example.com added successfully to shared@example.com.'' \<and>
   \<not> list_ex is_create
        (calls (snd (addDelegate (Key example_key) (Some ''shared@example.com'')
                       (Some ''user@example.com'') world_up)))"
  by (simp add: script_eval world_up_def example_key_def)

text \<open>
  C9. The claim asks that \<open>success\<close> never comes from a search for the word \<open>Error\<close> in
  the output of a script. In the API route it does: adding the delegate
  \<open>Error.Smith@example.com\<close> issues the create call, the remote service accepts it and
  the mailbox has the new delegate, yet the result is \<open>success = false\<close>, because the
  address is printed on \<open>stdout\<close>.
\<close>

theorem success_decided_by_substring:
  "list_ex is_create
     (calls (snd (addDelegate (Key example_key) (Some ''shared@example.com'')
                    (Some ''Error.Smith@example.com'') world_up))) \<and>
   list_ex (\<lambda>d. d_delegateEmail d = Some ''Error.Smith@example.com'')
     (mailboxes (snd (addDelegate (Key example_key) (Some ''shared@example.com'')
                        (Some ''Error.Smith@example.com'') world_up))
        (Some ''shared@example.com'')) \<and>
   \<not> success (fst (addDelegate (Key example_key) (Some ''shared@example.com'')
                     (Some ''Error.Smith@example.com'') world_up)) \<and>
   message (fst (addDelegate (Key example_key) (Some ''shared@example.com'')
                   (Some ''Error.Smith@example.com'') world_up))
     = Some ''Failed to add delegate. Check the details for more information.''"
  by (simp add: script_eval world_up_def example_key_def)

section \<open>A failed list call\<close>

text \<open>
  C7. The claim asks that no mutating call is issued when the list call before it fails.
  On the API route an \<open>add\<close> request runs \<open>createDelegate.ts\<close>, which takes a failed list
  call for an absent delegate (\<open>result.success && ...\<close>) and goes on: with a remote
  service whose list call fails and whose other calls succeed, adding a delegate that the
  mailbox already has issues the create call, the mailbox then has the delegate twice,
  and the answer is the failure "Error executing script", because the list error was
  printed on \<open>stderr\<close>. \<open>processDelegateOperation\<close> on the same request returns the list
  failure and issues no mutating call.
\<close>

theorem create_after_failed_list:
  "list_ex is_create (calls (snd (POST add_form_data world_list_down))) \<and>
   mailboxes (snd (POST add_form_data world_list_down)) (Some ''shared@example.com'')
     = [\<lparr>d_delegateEmail = Some ''user@example.com'', d_verificationStatus = Some ''accepted''\<rparr>,
        \<lparr>d_delegateEmail = Some ''user@example.com'', d_verificationStatus = Some ''accepted''\<rparr>] \<and>
   fst (POST add_form_data world_list_down)
     = OperationResponse
         (res0\<lparr>success := False, r_userEmail := Some ''shared@example.com'',
               r_delegateEmail := Some ''user@example.com'', r_operation := Some ''add'',
               message := Some ''Error executing script'',
               rawOutput := Some (''Error listing delegates: Error: network error''
                                  @ [CHR 0x0A])\<rparr>) \<and>
   \<not> list_ex is_mutating
        (calls (snd (processDelegateOperation (Some ''add'') (Some ''shared@example.com'')
                       (Some ''user@example.com'') (Some (Key example_key)) world_list_down)))"
  by (simp add: POST_def add_form_data_def processDelegateOperation_def script_eval
        world_list_down_def example_key_def)

lemmas direct_eval = addDelegateDirectly_def removeDelegateDirectly_def route_listDelegates_def
  route_createGmailClient_def delegates_list_def delegates_create_def delegates_delete_def
  issue_def console_error_def some_delegate_def show_opt_def res0_def or_default_def
  inspect_error_def inspect_delegate_def Let_def

section \<open>Constructing a client\<close>

text \<open>
  C8. The claim asks that constructing a client fails at once for an identity that
  cannot be authenticated. \<open>createGmailClient\<close> of \<open>utils/gmail-integration.ts\<close> does
  (it asks for a token and the profile), the \<open>createGmailClient\<close> of the API routes does
  not: with a remote service that refuses every call it returns a client and contacts
  nobody. In the route that calls the API directly the refusal then shows only in the
  calls made with that client, and an \<open>add\<close> request reaches the create call.
\<close>

theorem route_client_without_probe:
  "route_createGmailClient (Key example_key) (Some ''shared@example.com'') world_down
     = (Some example_client, world_down) \<and>
   fst (createGmailClient example_key (Some ''shared@example.com'') world_down) = None \<and>
   list_ex is_create
     (calls (snd (direct_processBatch (Key example_key)
                    [\<lparr>operation = Some ''add'', userEmail = Some ''shared@example.com'',
                      delegateEmail = Some ''user@example.com''\<rparr>] world_down)))"
  by (simp add: direct_processBatch_def direct_processBatch_step_def direct_eval
        createGmailClient_def world_down_def example_client_def)

end
